theory Spec2Isabelle
  imports Main
begin

section \<open>JavaScript strings\<close>

text \<open>
  The sentence generator of \<^verbatim>\<open>server/routers.ts\<close> works on JavaScript strings. A
  string is modelled as the list of its UTF-16 code units, for code units in the range
  U+0000..U+00FF: a \<^typ>\<open>char\<close> is the code unit of that number. White space, line
  terminators, word characters and the case mappings below are those of ECMAScript on
  that range. Text with code units above U+00FF is outside the model.
\<close>

definition backslash :: char where
  "backslash = CHR 0x5C"

definition dquote :: char where
  "dquote = CHR 0x22"

definition squote :: char where
  "squote = CHR 0x27"

text \<open>White space and line terminators, as \<^verbatim>\<open>trim()\<close> and \<^verbatim>\<open>\s\<close> see them:
  TAB, LF, VT, FF, CR, SPACE and NO-BREAK SPACE.\<close>

definition isWhiteSpace :: "char \<Rightarrow> bool" where
  "isWhiteSpace c =
     (c \<in> set [CHR 0x09, CHR 0x0A, CHR 0x0B, CHR 0x0C, CHR 0x0D, CHR 0x20, CHR 0xA0])"

definition isLineTerminator :: "char \<Rightarrow> bool" where
  "isLineTerminator c = (c \<in> set [CHR 0x0A, CHR 0x0D])"

text \<open>The word characters of \<^verbatim>\<open>\b\<close> and \<^verbatim>\<open>\w\<close>: ASCII letters, digits and the
  underscore.\<close>

definition upper_ascii :: string where
  "upper_ascii = ''ABCDEFGHIJKLMNOPQRSTUVWXYZ''"

definition lower_ascii :: string where
  "lower_ascii = ''abcdefghijklmnopqrstuvwxyz''"

definition isWordChar :: "char \<Rightarrow> bool" where
  "isWordChar c = (c \<in> set (upper_ascii @ lower_ascii @ ''0123456789_''))"

text \<open>The letters U+00C0..U+00DE (without the multiplication sign U+00D7) and their
  lower-case forms U+00E0..U+00FE (without the division sign U+00F7).\<close>

definition upper_latin1 :: string where
  "upper_latin1 =
     [CHR 0xC0, CHR 0xC1, CHR 0xC2, CHR 0xC3, CHR 0xC4, CHR 0xC5, CHR 0xC6, CHR 0xC7,
      CHR 0xC8, CHR 0xC9, CHR 0xCA, CHR 0xCB, CHR 0xCC, CHR 0xCD, CHR 0xCE, CHR 0xCF,
      CHR 0xD0, CHR 0xD1, CHR 0xD2, CHR 0xD3, CHR 0xD4, CHR 0xD5, CHR 0xD6,
      CHR 0xD8, CHR 0xD9, CHR 0xDA, CHR 0xDB, CHR 0xDC, CHR 0xDD, CHR 0xDE]"

definition lower_latin1 :: string where
  "lower_latin1 =
     [CHR 0xE0, CHR 0xE1, CHR 0xE2, CHR 0xE3, CHR 0xE4, CHR 0xE5, CHR 0xE6, CHR 0xE7,
      CHR 0xE8, CHR 0xE9, CHR 0xEA, CHR 0xEB, CHR 0xEC, CHR 0xED, CHR 0xEE, CHR 0xEF,
      CHR 0xF0, CHR 0xF1, CHR 0xF2, CHR 0xF3, CHR 0xF4, CHR 0xF5, CHR 0xF6,
      CHR 0xF8, CHR 0xF9, CHR 0xFA, CHR 0xFB, CHR 0xFC, CHR 0xFD, CHR 0xFE]"

definition translate :: "string \<Rightarrow> string \<Rightarrow> char \<Rightarrow> char" where
  "translate src dst c = (case map_of (zip src dst) c of Some d \<Rightarrow> d | None \<Rightarrow> c)"

text \<open>\<^verbatim>\<open>String.prototype.toLowerCase\<close>, code unit by code unit.\<close>

definition toLowerCase :: "string \<Rightarrow> string" where
  "toLowerCase s = map (translate (upper_ascii @ upper_latin1) (lower_ascii @ lower_latin1)) s"

text \<open>
  \<open>Canonicalize\<close> of a regular expression with the flag \<^verbatim>\<open>i\<close> and without \<^verbatim>\<open>u\<close>: the
  upper-case form of the code unit when that is one code unit. U+00DF has a two-letter
  upper-case form and stays; the upper-case forms of U+00B5 and U+00FF lie above U+00FF
  and are the canonical form of no other code unit of the range, so these two stay as
  well.
\<close>

definition Canonicalize :: "char \<Rightarrow> char" where
  "Canonicalize c = translate (lower_ascii @ lower_latin1) (upper_ascii @ upper_latin1) c"

text \<open>\<^verbatim>\<open>String.prototype.trim\<close>.\<close>

definition trim :: "string \<Rightarrow> string" where
  "trim s = rev (dropWhile isWhiteSpace (rev (dropWhile isWhiteSpace s)))"

definition startsWith :: "string \<Rightarrow> string \<Rightarrow> bool" where
  "startsWith s t = (take (length t) s = t)"

definition endsWith :: "string \<Rightarrow> string \<Rightarrow> bool" where
  "endsWith s t = (length t \<le> length s \<and> drop (length s - length t) s = t)"

text \<open>\<^verbatim>\<open>s.includes(t)\<close>: \<open>t\<close> occurs in \<open>s\<close>.\<close>

fun includes_str :: "string \<Rightarrow> string \<Rightarrow> bool" where
  "includes_str [] t = (t = [])"
| "includes_str (c # cs) t = (startsWith (c # cs) t \<or> includes_str cs t)"

text \<open>\<^verbatim>\<open>s.split(sep)\<close> for a separator of one character: the empty string splits into
  one empty token.\<close>

fun split :: "char \<Rightarrow> string \<Rightarrow> string list" where
  "split sep [] = [[]]"
| "split sep (c # cs) =
     (if c = sep then [] # split sep cs
      else (case split sep cs of
              [] \<Rightarrow> [[c]]
            | t # ts \<Rightarrow> (c # t) # ts))"

text \<open>\<^verbatim>\<open>tokens.join(sep)\<close>.\<close>

fun join :: "string \<Rightarrow> string list \<Rightarrow> string" where
  "join sep [] = []"
| "join sep [t] = t"
| "join sep (t # u # ts) = t @ sep @ join sep (u # ts)"

text \<open>\<^verbatim>\<open>s.replace(/\s+/g, ' ')\<close>: every maximal run of white space becomes one space.\<close>

function collapseWhiteSpace :: "string \<Rightarrow> string" where
  "collapseWhiteSpace [] = []"
| "collapseWhiteSpace (c # cs) =
     (if isWhiteSpace c then CHR '' '' # collapseWhiteSpace (dropWhile isWhiteSpace cs)
      else c # collapseWhiteSpace cs)"
  by pat_completeness auto
termination
  by (relation "measure length") (auto simp: length_dropWhile_le less_Suc_eq_le)

text \<open>The blank marker of a practice sentence.\<close>

definition blank :: string where
  "blank = ''___''"


text \<open>\<^verbatim>\<open>/[.!?]$/.test(s)\<close>: the last character is terminal punctuation.\<close>

definition endsWithPunctuation :: "string \<Rightarrow> bool" where
  "endsWithPunctuation s = (s \<noteq> [] \<and> last s \<in> set ''.!?'')"

section \<open>Exceptions and their messages\<close>

text \<open>
  The message of an \<^verbatim>\<open>Error\<close>. Each message literal of the source is a constructor;
  \<open>message_units\<close> gives its UTF-16 code units. \<open>Text\<close> carries the message of an
  exception that the runtime raised (\<^verbatim>\<open>fetch\<close>, \<^verbatim>\<open>response.json()\<close>, a property
  access, \<^verbatim>\<open>new RegExp\<close>).
\<close>

datatype message =
    WordTooShort
  | KeyNotConfigured
  | KeyInvalid
  | PermissionDenied
  | RateLimited
  | ServerError
  | HttpFailure nat string
  | NoValidContent
  | ApiCallException
  | UnknownError
  | Text string

fun decimal :: "nat \<Rightarrow> string" where
  "decimal n =
     (if n < 10 then [''0123456789'' ! n]
      else decimal (n div 10) @ [''0123456789'' ! (n mod 10)])"

definition units :: "string \<Rightarrow> nat list" where
  "units s = map of_char s"

fun message_units :: "message \<Rightarrow> nat list" where
  "message_units WordTooShort =
     [0x55AE, 0x5B57, 0x9577, 0x5EA6, 0x4E0D, 0x80FD, 0x5C11, 0x65BC, 0x20, 0x31, 0x20,
      0x500B, 0x5B57, 0x7B26]"
| "message_units KeyNotConfigured = units ''DEEPSEEK_API_KEY is not configured''"
| "message_units KeyInvalid = units ''API Key '' @ [0x7121, 0x6548, 0x2F, 0x904E, 0x671F]"
| "message_units PermissionDenied = units ''API '' @ [0x6B0A, 0x9650, 0x4E0D, 0x8DB3]"
| "message_units RateLimited =
     units ''API '' @ [0x8ABF, 0x7528, 0x983B, 0x7387, 0x8D85, 0x9650]"
| "message_units ServerError =
     units ''DeepSeek API '' @ [0x670D, 0x52D9, 0x5668, 0x5167, 0x90E8, 0x932F, 0x8AA4]"
| "message_units (HttpFailure status body) =
     units (''HTTP '' @ decimal status @ '': '' @ body)"
| "message_units NoValidContent =
     units ''API '' @ [0x97FF, 0x61C9, 0x7121, 0x6709, 0x6548, 0x5167, 0x5BB9]"
| "message_units ApiCallException = units ''API '' @ [0x8ABF, 0x7528, 0x7570, 0x5E38]"
| "message_units UnknownError = units ''Unknown error''"
| "message_units (Text s) = units s"

text \<open>A thrown value: an instance of \<^verbatim>\<open>Error\<close> with its message, or any other value.\<close>

datatype js_exn = Error message | NonError

section \<open>Regular expressions\<close>

text \<open>
  A compiled regular expression without the flags \<^verbatim>\<open>g\<close> and \<^verbatim>\<open>y\<close> is the function
  from a subject string to its first match, as index and length. The constructor
  \<^verbatim>\<open>new RegExp(source, 'i')\<close> either throws or returns one.

  The model compiles the sources \<^verbatim>\<open>\b\<close> \<open>body\<close> \<^verbatim>\<open>\b\<close> whose body has no syntax
  character but the dot: a sequence of literal characters, compared after
  \<open>Canonicalize\<close>, and of dots, which match any character but a line terminator. Every
  other source goes to the parameter \<open>ext\<close>, which stands for what the engine does there.
\<close>

type_synonym regexp = "string \<Rightarrow> (nat \<times> nat) option"

type_synonym regexp_engine = "string \<Rightarrow> js_exn + regexp"

datatype atom = Lit char | AnyChar

definition syntaxCharacters :: string where
  "syntaxCharacters = ''^$.*+?()[]{}|'' @ [backslash]"

fun parseAtoms :: "string \<Rightarrow> atom list option" where
  "parseAtoms [] = Some []"
| "parseAtoms (c # cs) =
     (if c = CHR ''.'' then map_option (Cons AnyChar) (parseAtoms cs)
      else if c \<in> set syntaxCharacters then None
      else map_option (Cons (Lit c)) (parseAtoms cs))"

fun atomMatches :: "atom \<Rightarrow> char \<Rightarrow> bool" where
  "atomMatches (Lit x) c = (Canonicalize x = Canonicalize c)"
| "atomMatches AnyChar c = (\<not> isLineTerminator c)"

fun nextIsWord :: "string \<Rightarrow> bool" where
  "nextIsWord [] = False"
| "nextIsWord (c # cs) = isWordChar c"

text \<open>The atoms and the closing \<^verbatim>\<open>\b\<close> against the rest of the subject; \<open>prev\<close> says
  whether the character before is a word character.\<close>

fun matchAtoms :: "atom list \<Rightarrow> bool \<Rightarrow> string \<Rightarrow> bool" where
  "matchAtoms [] prev rest = (prev \<noteq> nextIsWord rest)"
| "matchAtoms (a # as) prev [] = False"
| "matchAtoms (a # as) prev (c # cs) = (atomMatches a c \<and> matchAtoms as (isWordChar c) cs)"

definition matchHere :: "atom list \<Rightarrow> bool \<Rightarrow> string \<Rightarrow> bool" where
  "matchHere atoms prev rest = (prev \<noteq> nextIsWord rest \<and> matchAtoms atoms prev rest)"

text \<open>The leftmost match, from index \<open>i\<close> on.\<close>

fun search :: "atom list \<Rightarrow> bool \<Rightarrow> string \<Rightarrow> nat \<Rightarrow> (nat \<times> nat) option" where
  "search atoms prev [] i = (if matchHere atoms prev [] then Some (i, length atoms) else None)"
| "search atoms prev (c # cs) i =
     (if matchHere atoms prev (c # cs) then Some (i, length atoms)
      else search atoms (isWordChar c) cs (Suc i))"

definition exec :: "atom list \<Rightarrow> regexp" where
  "exec atoms s = search atoms False s 0"

definition wordBoundary :: string where
  "wordBoundary = [backslash, CHR ''b'']"

definition RegExp_new :: "regexp_engine \<Rightarrow> string \<Rightarrow> js_exn + regexp" where
  "RegExp_new ext source =
     (if 4 \<le> length source \<and> startsWith source wordBoundary \<and> endsWith source wordBoundary
      then (case parseAtoms (take (length source - 4) (drop 2 source)) of
              Some atoms \<Rightarrow> Inr (exec atoms)
            | None \<Rightarrow> ext source)
      else ext source)"

text \<open>\<^verbatim>\<open>pattern.test(s)\<close> and \<^verbatim>\<open>s.replace(pattern, r)\<close> for a replacement \<open>r\<close>
  without \<^verbatim>\<open>$\<close>: the first match is replaced.\<close>

definition test :: "regexp \<Rightarrow> string \<Rightarrow> bool" where
  "test pattern s = (pattern s \<noteq> None)"

definition replace :: "string \<Rightarrow> regexp \<Rightarrow> string \<Rightarrow> string" where
  "replace s pattern r =
     (case pattern s of
        None \<Rightarrow> s
      | Some (i, n) \<Rightarrow> take i s @ r @ drop (i + n) s)"

section \<open>The sentence normalizer\<close>

text \<open>
  Line 203 escapes the word with
  \<^verbatim>\<open>word.replace(/[.*+?^${}()|[\\]\\\\]/g, '\\$&')\<close>. The expression is a regular
  expression literal inside the substitution of a template literal; there it is ordinary
  code, and each pair of backslashes is one escaped backslash of the regular expression.
  Its class ends at the first \<^verbatim>\<open>]\<close> and holds the characters of \<open>escapeClass\<close>; two
  backslashes and a \<^verbatim>\<open>]\<close> follow the class. So it matches four characters, one of
  the class, two backslashes and \<^verbatim>\<open>]\<close>, and puts a backslash in front of each
  match.
\<close>

definition escapeClass :: string where
  "escapeClass = ''.*+?^${}()|['' @ [backslash]"

fun escapeWord :: "string \<Rightarrow> string" where
  "escapeWord (c # d # e # f # cs) =
     (if c \<in> set escapeClass \<and> d = backslash \<and> e = backslash \<and> f = CHR '']''
      then backslash # c # d # e # f # escapeWord cs
      else c # escapeWord (d # e # f # cs))"
| "escapeWord cs = cs"

text \<open>Lines 194 to 197: one layer of matching quotes is removed.\<close>

definition stripQuotes :: "string \<Rightarrow> string" where
  "stripQuotes sentence =
     (if (startsWith sentence [dquote] \<and> endsWith sentence [dquote]) \<or>
         (startsWith sentence [squote] \<and> endsWith sentence [squote])
      then butlast (tl sentence) else sentence)"

text \<open>Lines 208 to 215: no match of the word.\<close>

definition insertBlank :: "string \<Rightarrow> string" where
  "insertBlank sentence =
     (let words = split CHR '' '' sentence in
      if 3 < length words
      then (let insertPos = length words div 2
            in join '' '' (take insertPos words @ [blank] @ drop insertPos words))
      else butlast sentence @ '' '' @ blank @ ''.'')"

text \<open>Lines 200 to 217: the blank marker is put in when the text has none.\<close>

definition placeBlank :: "regexp_engine \<Rightarrow> string \<Rightarrow> string \<Rightarrow> js_exn + string" where
  "placeBlank ext sentence word =
     (if \<not> includes_str sentence blank
      then (let sentenceLower = toLowerCase sentence
            in case RegExp_new ext (wordBoundary @ escapeWord word @ wordBoundary) of
                 Inl e \<Rightarrow> Inl e
               | Inr pattern \<Rightarrow>
                   Inr (if test pattern sentenceLower then replace sentence pattern blank
                        else insertBlank sentence))
      else Inr sentence)"

text \<open>Lines 219 to 227: terminal punctuation, then white space.\<close>

definition finish :: "string \<Rightarrow> string" where
  "finish sentence =
     trim (collapseWhiteSpace
       (if \<not> endsWithPunctuation sentence then sentence @ ''.'' else sentence))"

definition extractSentence :: "regexp_engine \<Rightarrow> string \<Rightarrow> string \<Rightarrow> js_exn + string" where
  "extractSentence ext response word =
     (case placeBlank ext (stripQuotes (trim response)) word of
        Inl e \<Rightarrow> Inl e
      | Inr sentence \<Rightarrow> Inr (finish sentence))"

section \<open>The random source\<close>

text \<open>
  \<^verbatim>\<open>Math.floor(Math.random() * n)\<close> is an index below \<open>n\<close>. A draw of the random source
  is a natural number, and the index is the draw modulo \<open>n\<close>. One call of
  \<^verbatim>\<open>generateSentenceForWord\<close> draws at most once at each of the five places below.
\<close>

record draws =
  style_draw :: nat
  context_draw :: nat
  variation_draw :: nat
  temperature_draw :: nat
  template_draw :: nat

definition randomIndex :: "nat \<Rightarrow> nat \<Rightarrow> nat" where
  "randomIndex draw n = draw mod n"

section \<open>The prompt\<close>

text \<open>
  \<^verbatim>\<open>difficultyInstructions\<close> (lines 87 to 91) is an object literal with the three own
  properties \<^verbatim>\<open>easy\<close>, \<^verbatim>\<open>medium\<close> and \<^verbatim>\<open>hard\<close>; a lookup of any other name goes on to
  \<^verbatim>\<open>Object.prototype\<close>, whose members are functions and objects, all of them truthy.
  \<open>Inherited name\<close> is the member found there.
\<close>

datatype instruction = Easy | Medium | Hard | Inherited string

definition Object_prototype :: "string list" where
  "Object_prototype =
     [''constructor'', ''__defineGetter__'', ''__defineSetter__'', ''hasOwnProperty'',
      ''__lookupGetter__'', ''__lookupSetter__'', ''isPrototypeOf'',
      ''propertyIsEnumerable'', ''toString'', ''valueOf'', ''__proto__'',
      ''toLocaleString'']"

definition difficultyInstructions :: "string \<Rightarrow> instruction option" where
  "difficultyInstructions name =
     (if name = ''easy'' then Some Easy
      else if name = ''medium'' then Some Medium
      else if name = ''hard'' then Some Hard
      else if name \<in> set Object_prototype then Some (Inherited name)
      else None)"

text \<open>\<^verbatim>\<open>variations\<close> (lines 95 to 101): the first entry is built from the selected style
  and context, the others are the literals of index 1 to 4.\<close>

datatype variation = StyleContext nat nat | Literal nat

text \<open>The prompt is a fixed text around the word, the instruction and the extra
  instruction (lines 105 to 123).\<close>

record prompt =
  prompt_word :: string
  prompt_instruction :: instruction
  prompt_extra :: variation

definition createPrompt :: "draws \<Rightarrow> string \<Rightarrow> string \<Rightarrow> prompt" where
  "createPrompt r w d =
     (let selectedStyle = randomIndex (style_draw r) 7;
          selectedContext = randomIndex (context_draw r) 8;
          instruction = (case difficultyInstructions d of Some v \<Rightarrow> v | None \<Rightarrow> Medium);
          k = randomIndex (variation_draw r) 5;
          extraInstruction = (if k = 0 then StyleContext selectedStyle selectedContext else Literal k)
      in \<lparr>prompt_word = w, prompt_instruction = instruction, prompt_extra = extraInstruction\<rparr>)"

section \<open>The generation client\<close>

text \<open>
  A request carries the credential, the prompt and the sampling temperature (in
  hundredths, 50 to 90); the endpoint, the model, the system message, the token budget
  and \<^verbatim>\<open>stream: false\<close> are the same in every request.

  Of the parsed body of a response the code reads \<^verbatim>\<open>JSON.stringify\<close> of it (line
  173) and \<^verbatim>\<open>choices[0].message.content\<close> (lines 177 to 181): \<open>NoChoices\<close> when
  \<^verbatim>\<open>choices\<close> is missing, falsy or empty, \<open>Content\<close> when the content of the first
  choice is a string, \<open>Unreadable\<close> when reading it throws a \<^verbatim>\<open>TypeError\<close> with that
  message.
\<close>

record request =
  authorization :: string
  user_prompt :: prompt
  temperature :: nat

datatype completion = Unreadable string | NoChoices | Content string

record json_value =
  stringified :: string
  completion :: completion

record response =
  status :: nat
  json :: "js_exn + json_value"

definition ok :: "response \<Rightarrow> bool" where
  "ok r = (200 \<le> status r \<and> status r \<le> 299)"

type_synonym fetch = "request \<Rightarrow> js_exn + response"

text \<open>Lines 162 to 181: the response is classified.\<close>

definition readResponse :: "response \<Rightarrow> js_exn + string" where
  "readResponse r =
     (if \<not> ok r
      then (let errorData = (case json r of Inl e \<Rightarrow> ''{}'' | Inr v \<Rightarrow> stringified v)
            in if status r = 401 then Inl (Error KeyInvalid)
               else if status r = 403 then Inl (Error PermissionDenied)
               else if status r = 429 then Inl (Error RateLimited)
               else if status r = 500 then Inl (Error ServerError)
               else Inl (Error (HttpFailure (status r) errorData)))
      else (case json r of
              Inl e \<Rightarrow> Inl e
            | Inr result \<Rightarrow>
                (case completion result of
                   Unreadable m \<Rightarrow> Inl (Error (Text m))
                 | NoChoices \<Rightarrow> Inl (Error NoValidContent)
                 | Content c \<Rightarrow> Inr (trim c))))"

text \<open>Lines 182 to 187: an \<^verbatim>\<open>Error\<close> is thrown on, any other value is wrapped.\<close>

definition rethrow :: "js_exn + 'a \<Rightarrow> js_exn + 'a" where
  "rethrow r =
     (case r of
        Inl (Error m) \<Rightarrow> Inl (Error m)
      | Inl NonError \<Rightarrow> Inl (Error ApiCallException)
      | Inr v \<Rightarrow> Inr v)"

text \<open>The result comes with the requests that were passed to \<^verbatim>\<open>fetch\<close>.\<close>

definition callDeepSeekAPI ::
  "string \<Rightarrow> draws \<Rightarrow> fetch \<Rightarrow> prompt \<Rightarrow> request list \<times> (js_exn + string)" where
  "callDeepSeekAPI key r fetch p =
     (if key = [] then ([], Inl (Error KeyNotConfigured))
      else (let randomTemp = 50 + randomIndex (temperature_draw r) 41;
                data = \<lparr>authorization = key, user_prompt = p, temperature = randomTemp\<rparr>
            in ([data],
                rethrow (case fetch data of
                           Inl e \<Rightarrow> Inl e
                         | Inr response \<Rightarrow> readResponse response))))"

section \<open>The fallback generator\<close>

definition templates :: "string list" where
  "templates =
     [''We need to ___ carefully before making a decision.'',
      ''She said that ___ is essential for personal growth.'',
      ''In daily life, people often ___ to express their feelings.'',
      ''The teacher told us that ___ can help improve our skills.'',
      ''When facing challenges, we should ___ with courage.'',
      ''He spent a lot of time learning how to ___ properly.'',
      ''This experience taught me the importance of ___.'',
      ''Many people believe that ___ brings happiness and success.'']"

definition generateFallbackSentence :: "draws \<Rightarrow> string \<Rightarrow> string" where
  "generateFallbackSentence r w = templates ! randomIndex (template_draw r) (length templates)"

section \<open>The orchestrator\<close>

record SentenceResult =
  success :: bool
  word :: string
  sentence :: string
  difficulty :: string
  fallback :: bool
  error :: "message option"

text \<open>
  What a call meets outside the code: the credential read from the process
  environment, \<^verbatim>\<open>fetch\<close>, the regular expression engine outside the modelled
  fragment, and the random draws.
\<close>

record env =
  DEEPSEEK_API_KEY :: string
  env_fetch :: fetch
  env_regexp :: regexp_engine
  env_random :: draws

text \<open>Lines 37 to 47, the body of \<^verbatim>\<open>try\<close>.\<close>

definition generation :: "env \<Rightarrow> string \<Rightarrow> string \<Rightarrow> request list \<times> (js_exn + SentenceResult)" where
  "generation e w d =
     (let p = createPrompt (env_random e) w d;
          call = callDeepSeekAPI (DEEPSEEK_API_KEY e) (env_random e) (env_fetch e) p
      in (fst call,
          case snd call of
            Inl x \<Rightarrow> Inl x
          | Inr response \<Rightarrow>
              (case extractSentence (env_regexp e) response w of
                 Inl x \<Rightarrow> Inl x
               | Inr s \<Rightarrow>
                   Inr \<lparr>success = True, word = w, sentence = s, difficulty = d,
                        fallback = False, error = None\<rparr>)))"

text \<open>Line 57: \<^verbatim>\<open>error instanceof Error ? error.message : 'Unknown error'\<close>.\<close>

fun errorMessage :: "js_exn \<Rightarrow> message" where
  "errorMessage (Error m) = m"
| "errorMessage NonError = UnknownError"

text \<open>
  An \<^verbatim>\<open>async\<close> function returns a promise: \<open>Inr\<close> is the value it resolves to,
  \<open>Inl\<close> the exception it rejects with. The difficulty is \<open>None\<close> when the caller
  passes none.
\<close>

definition generateSentenceForWord ::
  "env \<Rightarrow> string \<Rightarrow> string option \<Rightarrow> request list \<times> (js_exn + SentenceResult)" where
  "generateSentenceForWord e w difficulty_arg =
     (let d = (case difficulty_arg of None \<Rightarrow> ''medium'' | Some x \<Rightarrow> x)
      in if w = []
         then ([], Inr \<lparr>success = False, word = w,
                         sentence = generateFallbackSentence (env_random e) w,
                         difficulty = d, fallback = True, error = Some WordTooShort\<rparr>)
         else (let tried = generation e w d
               in (fst tried,
                   case snd tried of
                     Inr result \<Rightarrow> Inr result
                   | Inl x \<Rightarrow>
                       (let fallbackSentence = generateFallbackSentence (env_random e) w
                        in Inr \<lparr>success = False, word = w, sentence = fallbackSentence,
                                difficulty = d, fallback = True,
                                error = Some (errorMessage x)\<rparr>))))"

section \<open>The procedures\<close>

record BatchResult =
  batch_success :: bool
  results :: "SentenceResult list"

text \<open>\<^verbatim>\<open>Promise.all\<close>: the values in the order of the promises, or the first rejection.\<close>

fun Promise_all :: "(js_exn + 'a) list \<Rightarrow> js_exn + 'a list" where
  "Promise_all [] = Inr []"
| "Promise_all (p # ps) =
     (case p of
        Inl x \<Rightarrow> Inl x
      | Inr v \<Rightarrow> (case Promise_all ps of Inl x \<Rightarrow> Inl x | Inr vs \<Rightarrow> Inr (v # vs)))"

text \<open>
  The procedures of lines 260 to 279 check their input against a schema before the
  handler runs: \<^verbatim>\<open>z.string().min(1)\<close> accepts a string of at least one code unit, and
  \<^verbatim>\<open>z.enum(['easy', 'medium', 'hard']).default('medium')\<close> accepts one of the three names
  and puts \<open>medium\<close> in the place of a missing value. An input that the schema does not
  accept makes the procedure fail with a \<^verbatim>\<open>TRPCError\<close> of code \<^verbatim>\<open>BAD_REQUEST\<close>, and the
  handler is not called. The inputs of the model have the shape of the schema, words
  that are strings and a difficulty that is a string or missing.
\<close>

datatype rejection = BadRequest | Failed js_exn

definition wordSchema :: "string \<Rightarrow> bool" where
  "wordSchema w = (1 \<le> length w)"

definition difficultySchema :: "string option \<Rightarrow> string option" where
  "difficultySchema difficulty_arg =
     (case difficulty_arg of
        None \<Rightarrow> Some ''medium''
      | Some d \<Rightarrow> if d \<in> set [''easy'', ''medium'', ''hard''] then Some d else None)"

text \<open>Lines 260 to 267.\<close>

definition generateSentence ::
  "env \<Rightarrow> string \<Rightarrow> string option \<Rightarrow> request list \<times> (rejection + SentenceResult)" where
  "generateSentence e w difficulty_arg =
     (case (if wordSchema w then difficultySchema difficulty_arg else None) of
        None \<Rightarrow> ([], Inl BadRequest)
      | Some d \<Rightarrow>
          (let call = generateSentenceForWord e w (Some d)
           in (fst call, case snd call of Inl x \<Rightarrow> Inl (Failed x) | Inr r \<Rightarrow> Inr r)))"

text \<open>
  Lines 269 to 279. The call for the word of index \<open>i\<close> meets the environment
  \<open>envs i\<close>. Every call reaches its \<^verbatim>\<open>fetch\<close> before the first one is resumed, so the
  requests go out in the order of the words.
\<close>

definition generateBatch ::
  "(nat \<Rightarrow> env) \<Rightarrow> string list \<Rightarrow> string option \<Rightarrow>
     request list \<times> (rejection + BatchResult)" where
  "generateBatch envs ws difficulty_arg =
     (case (if list_all wordSchema ws then difficultySchema difficulty_arg else None) of
        None \<Rightarrow> ([], Inl BadRequest)
      | Some d \<Rightarrow>
          (let calls =
                 map (\<lambda>i. generateSentenceForWord (envs i) (ws ! i) (Some d)) [0..<length ws]
           in (concat (map fst calls),
               case Promise_all (map snd calls) of
                 Inl x \<Rightarrow> Inl (Failed x)
               | Inr rs \<Rightarrow> Inr \<lparr>batch_success = True, results = rs\<rparr>)))"

section \<open>Words and environments of the examples\<close>


text \<open>
  The examples use words of the fragment, for which the engine parameter is never asked;
  \<open>rejecting\<close> fills its place. \<open>answering text\<close> is a \<^verbatim>\<open>fetch\<close> that resolves to
  a response of status 200 whose first choice has the content \<open>text\<close> (a text that JSON
  does not escape), \<open>refusing n\<close> resolves to a response of status \<open>n\<close> whose body is
  not JSON, and \<open>throwing x\<close> rejects with \<open>x\<close>.
\<close>

definition rejecting :: regexp_engine where
  "rejecting source = Inl (Error (Text ''Invalid regular expression''))"

definition chatCompletion :: "string \<Rightarrow> json_value" where
  "chatCompletion text =
     \<lparr>stringified =
        ''{'' @ [dquote] @ ''choices'' @ [dquote] @ '':[{'' @ [dquote] @ ''message'' @ [dquote] @
        '':{'' @ [dquote] @ ''content'' @ [dquote] @ '':'' @ [dquote] @ text @ [dquote] @ ''}}]}'',
      completion = Content text\<rparr>"

definition answering :: "string \<Rightarrow> fetch" where
  "answering text req = Inr \<lparr>status = 200, json = Inr (chatCompletion text)\<rparr>"

definition refusing :: "nat \<Rightarrow> fetch" where
  "refusing n req = Inr \<lparr>status = n, json = Inl (Error (Text ''Unexpected token <''))\<rparr>"

definition throwing :: "js_exn \<Rightarrow> fetch" where
  "throwing x req = Inl x"

definition noDraws :: draws where
  "noDraws = \<lparr>style_draw = 0, context_draw = 0, variation_draw = 0, temperature_draw = 0,
               template_draw = 0\<rparr>"

definition exampleEnv :: "fetch \<Rightarrow> env" where
  "exampleEnv f =
     \<lparr>DEEPSEEK_API_KEY = ''sk-test'', env_fetch = f, env_regexp = rejecting,
      env_random = noDraws\<rparr>"

section \<open>Lemmas\<close>

subsection \<open>Case mapping\<close>




subsection \<open>Matching does not depend on the case of the subject\<close>







subsection \<open>Occurrences of a substring\<close>




subsection \<open>White space\<close>







subsection \<open>The last steps\<close>







subsection \<open>Where the blank is put\<close>




subsection \<open>Words inside the modelled fragment\<close>








subsection \<open>The templates\<close>


lemma length_templates: "length templates = 8"
  by (simp add: templates_def)

lemma generateFallbackSentence_template: "generateFallbackSentence r w \<in> set templates"
  by (simp add: generateFallbackSentence_def randomIndex_def length_templates)


subsection \<open>The orchestrator\<close>

lemma message_units_empty: "message_units m = [] \<longleftrightarrow> m = Text []"
  by (cases m) (simp_all add: units_def)

lemma errorMessage_empty: "message_units (errorMessage x) = [] \<longleftrightarrow> x = Error (Text [])"
  by (cases x) (simp_all add: message_units_empty units_def)

lemma generateSentenceForWord_fallback:
  assumes "w \<noteq> []" "snd (generation e w (case d of None \<Rightarrow> ''medium'' | Some x \<Rightarrow> x)) = Inl x"
  shows "snd (generateSentenceForWord e w d) =
     Inr \<lparr>success = False, word = w, sentence = generateFallbackSentence (env_random e) w,
          difficulty = (case d of None \<Rightarrow> ''medium'' | Some x \<Rightarrow> x), fallback = True,
          error = Some (errorMessage x)\<rparr>"
  using assms by (simp add: generateSentenceForWord_def Let_def)

lemma generateSentenceForWord_success:
  assumes "w \<noteq> []" "snd (generation e w (case d of None \<Rightarrow> ''medium'' | Some x \<Rightarrow> x)) = Inr r"
  shows "snd (generateSentenceForWord e w d) = Inr r"
  using assms by (simp add: generateSentenceForWord_def Let_def)

lemma generateSentenceForWord_empty:
  "generateSentenceForWord e [] d =
     ([], Inr \<lparr>success = False, word = [], sentence = generateFallbackSentence (env_random e) [],
          difficulty = (case d of None \<Rightarrow> ''medium'' | Some x \<Rightarrow> x), fallback = True,
          error = Some WordTooShort\<rparr>)"
  by (simp add: generateSentenceForWord_def Let_def)

lemma generation_Inr:
  assumes "snd (generation e w d) = Inr r"
  shows "\<exists>raw s. snd (callDeepSeekAPI (DEEPSEEK_API_KEY e) (env_random e) (env_fetch e)
            (createPrompt (env_random e) w d)) = Inr raw \<and>
          extractSentence (env_regexp e) raw w = Inr s \<and>
          r = \<lparr>success = True, word = w, sentence = s, difficulty = d, fallback = False,
               error = None\<rparr>"
  using assms by (auto simp: generation_def Let_def split: sum.splits)

lemma generateSentenceForWord_cases:
  obtains (empty) "w = []"
      "snd (generateSentenceForWord e w d) =
         Inr \<lparr>success = False, word = w, sentence = generateFallbackSentence (env_random e) w,
              difficulty = (case d of None \<Rightarrow> ''medium'' | Some x \<Rightarrow> x), fallback = True,
              error = Some WordTooShort\<rparr>"
  | (caught) x where "w \<noteq> []"
      "snd (generation e w (case d of None \<Rightarrow> ''medium'' | Some x \<Rightarrow> x)) = Inl x"
      "snd (generateSentenceForWord e w d) =
         Inr \<lparr>success = False, word = w, sentence = generateFallbackSentence (env_random e) w,
              difficulty = (case d of None \<Rightarrow> ''medium'' | Some x \<Rightarrow> x), fallback = True,
              error = Some (errorMessage x)\<rparr>"
  | (generated) raw s where "w \<noteq> []"
      "snd (callDeepSeekAPI (DEEPSEEK_API_KEY e) (env_random e) (env_fetch e)
          (createPrompt (env_random e) w (case d of None \<Rightarrow> ''medium'' | Some x \<Rightarrow> x))) = Inr raw"
      "extractSentence (env_regexp e) raw w = Inr s"
      "snd (generateSentenceForWord e w d) =
         Inr \<lparr>success = True, word = w, sentence = s,
              difficulty = (case d of None \<Rightarrow> ''medium'' | Some x \<Rightarrow> x), fallback = False,
              error = None\<rparr>"
proof (cases "w = []")
  case True
  then show ?thesis using empty by (simp add: generateSentenceForWord_empty)
next
  case False
  show ?thesis
  proof (cases "snd (generation e w (case d of None \<Rightarrow> ''medium'' | Some x \<Rightarrow> x))")
    case (Inl x)
    then show ?thesis
      using caught False generateSentenceForWord_fallback [OF False Inl] by blast
  next
    case (Inr r)
    from generation_Inr [OF Inr] generateSentenceForWord_success [OF False Inr]
    show ?thesis using generated False by blast
  qed
qed

lemma generateSentenceForWord_total: "\<exists>r. snd (generateSentenceForWord e w d) = Inr r"
  by (cases rule: generateSentenceForWord_cases [of w e d]) auto

subsection \<open>The fragment\<close>




subsection \<open>The batch\<close>

lemma Promise_all_Inr:
  "(\<forall>p \<in> set ps. \<exists>v. p = Inr v) \<Longrightarrow> Promise_all ps = Inr (map projr ps)"
  by (induction ps) auto

subsection \<open>The generation client\<close>

lemma callDeepSeekAPI_no_key: "callDeepSeekAPI [] r f p = ([], Inl (Error KeyNotConfigured))"
  by (simp add: callDeepSeekAPI_def)

lemma callDeepSeekAPI_key:
  assumes "key \<noteq> []"
  shows "callDeepSeekAPI key r f p =
     ([\<lparr>authorization = key, user_prompt = p,
         temperature = 50 + randomIndex (temperature_draw r) 41\<rparr>],
      rethrow (case f \<lparr>authorization = key, user_prompt = p,
                        temperature = 50 + randomIndex (temperature_draw r) 41\<rparr> of
                 Inl x \<Rightarrow> Inl x
               | Inr resp \<Rightarrow> readResponse resp))"
  using assms by (simp add: callDeepSeekAPI_def Let_def)

lemma readResponse_status:
  "status resp = 401 \<Longrightarrow> rethrow (readResponse resp) = Inl (Error KeyInvalid)"
  "status resp = 403 \<Longrightarrow> rethrow (readResponse resp) = Inl (Error PermissionDenied)"
  "status resp = 429 \<Longrightarrow> rethrow (readResponse resp) = Inl (Error RateLimited)"
  "status resp = 500 \<Longrightarrow> rethrow (readResponse resp) = Inl (Error ServerError)"
  by (simp_all add: readResponse_def rethrow_def ok_def)

lemma readResponse_other:
  assumes "\<not> ok resp \<and> status resp \<notin> {401, 403, 429, 500}"
  shows "rethrow (readResponse resp) =
     Inl (Error (HttpFailure (status resp)
       (case json resp of Inl x \<Rightarrow> ''{}'' | Inr v \<Rightarrow> stringified v)))"
  using assms by (simp add: readResponse_def rethrow_def)

lemma readResponse_ok:
  assumes "ok resp \<and> json resp = Inr v"
  shows "completion v = NoChoices \<Longrightarrow> rethrow (readResponse resp) = Inl (Error NoValidContent)"
    and "completion v = Content c \<Longrightarrow> rethrow (readResponse resp) = Inr (trim c)"
  using assms by (simp_all add: readResponse_def rethrow_def)

lemma readResponse_json_throws:
  assumes "ok resp"
  shows "json resp = Inl (Error m) \<Longrightarrow> rethrow (readResponse resp) = Inl (Error m)"
    and "json resp = Inl NonError \<Longrightarrow> rethrow (readResponse resp) = Inl (Error ApiCallException)"
  using assms by (simp_all add: readResponse_def rethrow_def)

lemma readResponse_unreadable:
  assumes "ok resp \<and> json resp = Inr v" "completion v = Unreadable m"
  shows "rethrow (readResponse resp) = Inl (Error (Text m))"
  using assms by (simp add: readResponse_def rethrow_def)

subsection \<open>A text that has a blank\<close>


section \<open>The claims\<close>

text \<open>
  C1, as amended. For every non-empty word and every outcome of the generation chain,
  \<open>generateSentenceForWord\<close> resolves to a result and never rejects. When the chain
  fails with the exception \<open>x\<close>, the result has \<open>success\<close> false and \<open>fallback\<close> true, its
  sentence is the one of the fallback generator, a template, and its error is the
  message of \<open>x\<close> (\<open>UnknownError\<close> for a value that is no \<^verbatim>\<open>Error\<close>). That message is
  not empty unless \<open>x\<close> is an \<^verbatim>\<open>Error\<close> that the runtime raised with an empty message.
\<close>

theorem generateSentenceForWord_catches:
  assumes "w \<noteq> []"
  shows "\<exists>r. snd (generateSentenceForWord e w d) = Inr r \<and>
     (case snd (generation e w (case d of None \<Rightarrow> ''medium'' | Some x \<Rightarrow> x)) of
        Inr result \<Rightarrow> r = result
      | Inl x \<Rightarrow>
          \<not> success r \<and> fallback r \<and> error r = Some (errorMessage x) \<and>
          sentence r = generateFallbackSentence (env_random e) w \<and>
          sentence r \<in> set templates \<and>
          (x = Error (Text []) \<or> message_units (errorMessage x) \<noteq> []))"
proof (cases "snd (generation e w (case d of None \<Rightarrow> ''medium'' | Some x \<Rightarrow> x))")
  case (Inl x)
  show ?thesis
    using generateSentenceForWord_fallback [OF assms Inl] Inl errorMessage_empty [of x]
    by (auto simp: generateFallbackSentence_template)
next
  case (Inr r)
  show ?thesis
    using generateSentenceForWord_success [OF assms Inr] Inr by simp
qed

text \<open>The theorem at the word \<open>cat\<close>, when the endpoint answers with status 503.\<close>

theorem generateSentenceForWord_catches_witness:
  "''cat'' \<noteq> [] \<and>
   (\<exists>r. snd (generateSentenceForWord (exampleEnv (refusing 503)) ''cat'' (Some ''easy'')) = Inr r \<and>
      \<not> success r \<and> fallback r \<and> error r = Some (HttpFailure 503 ''{}'') \<and>
      sentence r \<in> set templates \<and> message_units (HttpFailure 503 ''{}'') \<noteq> [])"
proof -
  have g: "snd (generation (exampleEnv (refusing 503)) ''cat'' ''easy'') =
      Inl (Error (HttpFailure 503 ''{}''))"
    by code_simp
  have n: "''cat'' \<noteq> []" by simp
  show ?thesis
    using generateSentenceForWord_catches [OF n, of "exampleEnv (refusing 503)" "Some ''easy''"] g
    by auto
qed

text \<open>C1 as stated fails: when \<^verbatim>\<open>fetch\<close> rejects with an \<^verbatim>\<open>Error\<close> whose message is
  empty, the error of the result is the empty string.\<close>

theorem empty_error_message_counterexample:
  "snd (generateSentenceForWord (exampleEnv (throwing (Error (Text [])))) ''cat'' None) =
     Inr \<lparr>success = False, word = ''cat'',
          sentence = ''We need to ___ carefully before making a decision.'',
          difficulty = ''medium'', fallback = True, error = Some (Text [])\<rparr> \<and>
   message_units (Text []) = []"
  by code_simp




text \<open>
  C3. For the empty word \<open>generateSentenceForWord\<close> returns at once: \<open>success\<close> is false,
  \<open>fallback\<close> is true, the error is the message of line 28, which is not empty, the
  sentence is a template of the fallback generator, and no request is passed to
  \<^verbatim>\<open>fetch\<close>.
\<close>

theorem empty_word_short_circuit:
  "\<exists>r. generateSentenceForWord e [] d = ([], Inr r) \<and>
     \<not> success r \<and> fallback r \<and> error r = Some WordTooShort \<and>
     message_units WordTooShort \<noteq> [] \<and>
     sentence r = generateFallbackSentence (env_random e) [] \<and> sentence r \<in> set templates"
  by (simp add: generateSentenceForWord_empty generateFallbackSentence_template)

theorem empty_word_short_circuit_witness:
  "\<exists>r. generateSentenceForWord (exampleEnv (answering ''I feel happy today'')) [] None =
       ([], Inr r) \<and>
     \<not> success r \<and> fallback r \<and> error r = Some WordTooShort \<and> sentence r \<in> set templates"
  using empty_word_short_circuit [of "exampleEnv (answering ''I feel happy today'')" None]
  by auto

text \<open>
  C4. The code does not do what the claim says for a word with a metacharacter: the
  escape of line 203 leaves \<open>Mr.\<close> as it is, its dot matches any character, and the text
  \<open>Hello Mrs Smith how are you\<close>, in which \<open>Mr.\<close> does not occur, gets the blank in the
  place of \<open>Mrs\<close> instead of a blank token at index 3.
\<close>

theorem unescaped_dot_matches:
  "escapeWord ''Mr.'' = ''Mr.'' \<and>
   \<not> includes_str (toLowerCase ''Hello Mrs Smith how are you'') (toLowerCase ''Mr.'') \<and>
   extractSentence ext ''Hello Mrs Smith how are you'' ''Mr.'' = Inr ''Hello ___ Smith how are you.'' \<and>
   finish (insertBlank ''Hello Mrs Smith how are you'') = ''Hello Mrs Smith ___ how are you.''"
  by code_simp

text \<open>
  C5, as amended. Without a credential \<open>callDeepSeekAPI\<close> throws the configuration
  error and passes no request to \<^verbatim>\<open>fetch\<close>. With one it passes exactly one request, and:
  an \<^verbatim>\<open>Error\<close> that \<^verbatim>\<open>fetch\<close> throws is thrown on, any other thrown value is wrapped;
  status 401, 403, 429 and 500 give the four classified errors; every other status
  outside 200..299, the other 5xx statuses among them, gives the generic failure with
  the status and the body (\<^verbatim>\<open>{}\<close> when the body is not JSON). For a response of
  status 200..299: what \<^verbatim>\<open>response.json()\<close> throws is thrown on or wrapped in the same
  way; a body without choices gives the error of line 178; a first choice whose content
  cannot be read gives the \<^verbatim>\<open>TypeError\<close> of that read; and otherwise the trimmed
  content of the first choice is returned.
\<close>

theorem callDeepSeekAPI_outcomes:
  "callDeepSeekAPI [] r f p = ([], Inl (Error KeyNotConfigured)) \<and>
   (key \<noteq> [] \<longrightarrow>
     (\<exists>data. fst (callDeepSeekAPI key r f p) = [data] \<and> authorization data = key \<and>
        user_prompt data = p \<and>
        (\<forall>m. f data = Inl (Error m) \<longrightarrow> snd (callDeepSeekAPI key r f p) = Inl (Error m)) \<and>
        (f data = Inl NonError \<longrightarrow>
           snd (callDeepSeekAPI key r f p) = Inl (Error ApiCallException)) \<and>
        (\<forall>resp. f data = Inr resp \<longrightarrow>
           (status resp = 401 \<longrightarrow> snd (callDeepSeekAPI key r f p) = Inl (Error KeyInvalid)) \<and>
           (status resp = 403 \<longrightarrow>
              snd (callDeepSeekAPI key r f p) = Inl (Error PermissionDenied)) \<and>
           (status resp = 429 \<longrightarrow> snd (callDeepSeekAPI key r f p) = Inl (Error RateLimited)) \<and>
           (status resp = 500 \<longrightarrow> snd (callDeepSeekAPI key r f p) = Inl (Error ServerError)) \<and>
           (\<not> ok resp \<and> status resp \<notin> {401, 403, 429, 500} \<longrightarrow>
              snd (callDeepSeekAPI key r f p) =
                Inl (Error (HttpFailure (status resp)
                  (case json resp of Inl x \<Rightarrow> ''{}'' | Inr v \<Rightarrow> stringified v)))) \<and>
           (\<forall>m. ok resp \<and> json resp = Inl (Error m) \<longrightarrow>
              snd (callDeepSeekAPI key r f p) = Inl (Error m)) \<and>
           (ok resp \<and> json resp = Inl NonError \<longrightarrow>
              snd (callDeepSeekAPI key r f p) = Inl (Error ApiCallException)) \<and>
           (\<forall>v. ok resp \<and> json resp = Inr v \<longrightarrow>
              (completion v = NoChoices \<longrightarrow>
                 snd (callDeepSeekAPI key r f p) = Inl (Error NoValidContent)) \<and>
              (\<forall>m. completion v = Unreadable m \<longrightarrow>
                 snd (callDeepSeekAPI key r f p) = Inl (Error (Text m))) \<and>
              (\<forall>c. completion v = Content c \<longrightarrow>
                 snd (callDeepSeekAPI key r f p) = Inr (trim c))))))"
proof (intro conjI impI)
  show "callDeepSeekAPI [] r f p = ([], Inl (Error KeyNotConfigured))"
    by (rule callDeepSeekAPI_no_key)
next
  assume k: "key \<noteq> []"
  define data where
    "data = \<lparr>authorization = key, user_prompt = p,
             temperature = 50 + randomIndex (temperature_draw r) 41\<rparr>"
  have call: "callDeepSeekAPI key r f p =
      ([data], rethrow (case f data of Inl x \<Rightarrow> Inl x | Inr resp \<Rightarrow> readResponse resp))"
    unfolding data_def by (rule callDeepSeekAPI_key [OF k])
  show "\<exists>data. fst (callDeepSeekAPI key r f p) = [data] \<and> authorization data = key \<and>
        user_prompt data = p \<and>
        (\<forall>m. f data = Inl (Error m) \<longrightarrow> snd (callDeepSeekAPI key r f p) = Inl (Error m)) \<and>
        (f data = Inl NonError \<longrightarrow>
           snd (callDeepSeekAPI key r f p) = Inl (Error ApiCallException)) \<and>
        (\<forall>resp. f data = Inr resp \<longrightarrow>
           (status resp = 401 \<longrightarrow> snd (callDeepSeekAPI key r f p) = Inl (Error KeyInvalid)) \<and>
           (status resp = 403 \<longrightarrow>
              snd (callDeepSeekAPI key r f p) = Inl (Error PermissionDenied)) \<and>
           (status resp = 429 \<longrightarrow> snd (callDeepSeekAPI key r f p) = Inl (Error RateLimited)) \<and>
           (status resp = 500 \<longrightarrow> snd (callDeepSeekAPI key r f p) = Inl (Error ServerError)) \<and>
           (\<not> ok resp \<and> status resp \<notin> {401, 403, 429, 500} \<longrightarrow>
              snd (callDeepSeekAPI key r f p) =
                Inl (Error (HttpFailure (status resp)
                  (case json resp of Inl x \<Rightarrow> ''{}'' | Inr v \<Rightarrow> stringified v)))) \<and>
           (\<forall>m. ok resp \<and> json resp = Inl (Error m) \<longrightarrow>
              snd (callDeepSeekAPI key r f p) = Inl (Error m)) \<and>
           (ok resp \<and> json resp = Inl NonError \<longrightarrow>
              snd (callDeepSeekAPI key r f p) = Inl (Error ApiCallException)) \<and>
           (\<forall>v. ok resp \<and> json resp = Inr v \<longrightarrow>
              (completion v = NoChoices \<longrightarrow>
                 snd (callDeepSeekAPI key r f p) = Inl (Error NoValidContent)) \<and>
              (\<forall>m. completion v = Unreadable m \<longrightarrow>
                 snd (callDeepSeekAPI key r f p) = Inl (Error (Text m))) \<and>
              (\<forall>c. completion v = Content c \<longrightarrow>
                 snd (callDeepSeekAPI key r f p) = Inr (trim c))))"
  proof (intro exI [of _ data] conjI allI impI)
    show "fst (callDeepSeekAPI key r f p) = [data]"
      by (simp add: call)
    show "authorization data = key" "user_prompt data = p"
      by (simp_all add: data_def)
    show "snd (callDeepSeekAPI key r f p) = Inl (Error m)" if "f data = Inl (Error m)" for m
      using that by (simp add: call rethrow_def)
    show "snd (callDeepSeekAPI key r f p) = Inl (Error ApiCallException)"
      if "f data = Inl NonError"
      using that by (simp add: call rethrow_def)
  next
    fix resp
    assume "f data = Inr resp"
    then have a: "snd (callDeepSeekAPI key r f p) = rethrow (readResponse resp)"
      by (simp add: call)
    show "snd (callDeepSeekAPI key r f p) = Inl (Error KeyInvalid)" if "status resp = 401"
      using that by (simp only: a readResponse_status)
    show "snd (callDeepSeekAPI key r f p) = Inl (Error PermissionDenied)" if "status resp = 403"
      using that by (simp only: a readResponse_status)
    show "snd (callDeepSeekAPI key r f p) = Inl (Error RateLimited)" if "status resp = 429"
      using that by (simp only: a readResponse_status)
    show "snd (callDeepSeekAPI key r f p) = Inl (Error ServerError)" if "status resp = 500"
      using that by (simp only: a readResponse_status)
    show "snd (callDeepSeekAPI key r f p) =
        Inl (Error (HttpFailure (status resp)
          (case json resp of Inl x \<Rightarrow> ''{}'' | Inr v \<Rightarrow> stringified v)))"
      if "\<not> ok resp \<and> status resp \<notin> {401, 403, 429, 500}"
      unfolding a using that by (rule readResponse_other)
    show "snd (callDeepSeekAPI key r f p) = Inl (Error m)"
      if "ok resp \<and> json resp = Inl (Error m)" for m
      unfolding a using that readResponse_json_throws(1) [of resp m] by blast
    show "snd (callDeepSeekAPI key r f p) = Inl (Error ApiCallException)"
      if "ok resp \<and> json resp = Inl NonError"
      unfolding a using that readResponse_json_throws(2) [of resp] by blast
    show "snd (callDeepSeekAPI key r f p) = Inl (Error NoValidContent)"
      if "ok resp \<and> json resp = Inr v" "completion v = NoChoices" for v
      unfolding a using that by (rule readResponse_ok)
    show "snd (callDeepSeekAPI key r f p) = Inl (Error (Text m))"
      if "ok resp \<and> json resp = Inr v" "completion v = Unreadable m" for v m
      unfolding a using that by (rule readResponse_unreadable)
    show "snd (callDeepSeekAPI key r f p) = Inr (trim c)"
      if "ok resp \<and> json resp = Inr v" "completion v = Content c" for v c
      unfolding a using that by (rule readResponse_ok)
  qed
qed

text \<open>The theorem with a credential and an answer of status 200.\<close>

theorem callDeepSeekAPI_outcomes_witness:
  "''sk-test'' \<noteq> [] \<and>
   snd (callDeepSeekAPI ''sk-test'' noDraws (answering ''  I feel happy today '')
          (createPrompt noDraws ''happy'' ''easy'')) = Inr ''I feel happy today''"
proof -
  let ?f = "answering ''  I feel happy today ''"
  let ?p = "createPrompt noDraws ''happy'' ''easy''"
  let ?call = "callDeepSeekAPI ''sk-test'' noDraws ?f ?p"
  let ?v = "chatCompletion ''  I feel happy today ''"
  let ?resp = "\<lparr>status = 200, json = Inr ?v\<rparr>"
  have k: "''sk-test'' \<noteq> []" by simp
  note outcomes = callDeepSeekAPI_outcomes [of noDraws ?f ?p "''sk-test''", THEN conjunct2,
      THEN mp, OF k]
  from outcomes obtain data where all:
    "fst ?call = [data] \<and> authorization data = ''sk-test'' \<and> user_prompt data = ?p \<and>
     (\<forall>m. ?f data = Inl (Error m) \<longrightarrow> snd ?call = Inl (Error m)) \<and>
     (?f data = Inl NonError \<longrightarrow> snd ?call = Inl (Error ApiCallException)) \<and>
     (\<forall>resp. ?f data = Inr resp \<longrightarrow>
       (status resp = 401 \<longrightarrow> snd ?call = Inl (Error KeyInvalid)) \<and>
       (status resp = 403 \<longrightarrow> snd ?call = Inl (Error PermissionDenied)) \<and>
       (status resp = 429 \<longrightarrow> snd ?call = Inl (Error RateLimited)) \<and>
       (status resp = 500 \<longrightarrow> snd ?call = Inl (Error ServerError)) \<and>
       (\<not> ok resp \<and> status resp \<notin> {401, 403, 429, 500} \<longrightarrow>
          snd ?call =
            Inl (Error (HttpFailure (status resp)
              (case json resp of Inl x \<Rightarrow> ''{}'' | Inr v \<Rightarrow> stringified v)))) \<and>
       (\<forall>m. ok resp \<and> json resp = Inl (Error m) \<longrightarrow> snd ?call = Inl (Error m)) \<and>
       (ok resp \<and> json resp = Inl NonError \<longrightarrow> snd ?call = Inl (Error ApiCallException)) \<and>
       (\<forall>v. ok resp \<and> json resp = Inr v \<longrightarrow>
          (completion v = NoChoices \<longrightarrow> snd ?call = Inl (Error NoValidContent)) \<and>
          (\<forall>m. completion v = Unreadable m \<longrightarrow> snd ?call = Inl (Error (Text m))) \<and>
          (\<forall>c. completion v = Content c \<longrightarrow> snd ?call = Inr (trim c))))"
    by (rule exE)
  have fd: "?f data = Inr ?resp"
    by (simp add: answering_def)
  have okj: "ok ?resp \<and> json ?resp = Inr ?v"
    by (simp add: ok_def)
  have cc: "completion ?v = Content ''  I feel happy today ''"
    by (simp add: chatCompletion_def)
  note all [THEN conjunct2, THEN conjunct2, THEN conjunct2, THEN conjunct2, THEN conjunct2,
      THEN spec, THEN mp, OF fd, THEN conjunct2, THEN conjunct2, THEN conjunct2,
      THEN conjunct2, THEN conjunct2, THEN conjunct2, THEN conjunct2, THEN spec, THEN mp,
      OF okj, THEN conjunct2, THEN conjunct2, THEN spec, THEN mp, OF cc]
  moreover have "trim ''  I feel happy today '' = ''I feel happy today''"
    by code_simp
  ultimately have "snd ?call = Inr ''I feel happy today''"
    by (simp only:)
  with k show ?thesis by (intro conjI)
qed

text \<open>C5 as stated fails: the server error 503 is not classified as an upstream server
  failure, it gives the generic failure \<^verbatim>\<open>HTTP 503: {}\<close>.\<close>

theorem other_server_error_counterexample:
  "snd (callDeepSeekAPI ''sk-test'' noDraws (refusing 503) (createPrompt noDraws ''cat'' ''easy'')) =
     Inl (Error (HttpFailure 503 ''{}'')) \<and>
   HttpFailure 503 ''{}'' \<noteq> ServerError \<and>
   message_units (HttpFailure 503 ''{}'') = units ''HTTP 503: {}''"
  by code_simp




text \<open>
  C7, as amended. For words that are all non-empty and a difficulty that is \<open>easy\<close>,
  \<open>medium\<close>, \<open>hard\<close> or missing, \<open>generateBatch\<close> resolves to \<open>batch_success\<close> true
  and a list of results as long as the list of words; the result of index \<open>i\<close> is the
  result of \<open>generateSentenceForWord\<close> for the word of index \<open>i\<close> in its own
  environment, whatever the other calls meet; the empty list gives no request and no
  result. A list with an empty word, or another difficulty, is rejected by the input
  schema before any call is made.
\<close>

theorem generateBatch_results:
  "(list_all wordSchema ws \<and> difficultySchema da = Some d \<longrightarrow>
      (\<exists>rs. snd (generateBatch envs ws da) = Inr \<lparr>batch_success = True, results = rs\<rparr> \<and>
         length rs = length ws \<and>
         (\<forall>i < length ws.
            snd (generateSentenceForWord (envs i) (ws ! i) (Some d)) = Inr (rs ! i)))) \<and>
   (\<not> list_all wordSchema ws \<or> difficultySchema da = None \<longrightarrow>
      generateBatch envs ws da = ([], Inl BadRequest)) \<and>
   (difficultySchema da \<noteq> None \<longrightarrow>
      generateBatch envs [] da = ([], Inr \<lparr>batch_success = True, results = []\<rparr>))"
proof (intro conjI impI)
  assume v: "list_all wordSchema ws \<and> difficultySchema da = Some d"
  define calls where
    "calls = map (\<lambda>i. generateSentenceForWord (envs i) (ws ! i) (Some d)) [0..<length ws]"
  define rs where "rs = map projr (map snd calls)"
  have all: "\<forall>p \<in> set (map snd calls). \<exists>v. p = Inr v"
    using generateSentenceForWord_total by (auto simp: calls_def)
  have "snd (generateBatch envs ws da) = Inr \<lparr>batch_success = True, results = rs\<rparr>"
    using Promise_all_Inr [OF all] v
    by (simp add: generateBatch_def calls_def rs_def Let_def)
  moreover have "length rs = length ws" by (simp add: rs_def calls_def)
  moreover have "snd (generateSentenceForWord (envs i) (ws ! i) (Some d)) = Inr (rs ! i)"
    if "i < length ws" for i
  proof -
    obtain r where "snd (generateSentenceForWord (envs i) (ws ! i) (Some d)) = Inr r"
      using generateSentenceForWord_total by blast
    then show ?thesis using that by (simp add: rs_def calls_def)
  qed
  ultimately show "\<exists>rs. snd (generateBatch envs ws da) =
        Inr \<lparr>batch_success = True, results = rs\<rparr> \<and>
      length rs = length ws \<and>
      (\<forall>i < length ws. snd (generateSentenceForWord (envs i) (ws ! i) (Some d)) = Inr (rs ! i))"
    by blast
next
  assume "\<not> list_all wordSchema ws \<or> difficultySchema da = None"
  then show "generateBatch envs ws da = ([], Inl BadRequest)"
    by (auto simp: generateBatch_def)
next
  assume "difficultySchema da \<noteq> None"
  then show "generateBatch envs [] da = ([], Inr \<lparr>batch_success = True, results = []\<rparr>)"
    by (auto simp: generateBatch_def)
qed

text \<open>The theorem for three words, the call for the second of which is rate limited.\<close>

theorem generateBatch_results_witness:
  "list_all wordSchema [''apple'', ''book'', ''day''] \<and>
   difficultySchema None = Some ''medium'' \<and>
   (\<exists>rs. snd (generateBatch
              (\<lambda>i. exampleEnv (if i = 1 then refusing 429 else answering ''An apple a day''))
              [''apple'', ''book'', ''day''] None) =
          Inr \<lparr>batch_success = True, results = rs\<rparr> \<and>
        length rs = 3 \<and>
        snd (generateSentenceForWord (exampleEnv (refusing 429)) ''book'' (Some ''medium'')) =
          Inr (rs ! 1))"
proof -
  let ?envs = "\<lambda>i::nat. exampleEnv (if i = 1 then refusing 429 else answering ''An apple a day'')"
  let ?ws = "[''apple'', ''book'', ''day'']"
  have v: "list_all wordSchema ?ws \<and> difficultySchema None = Some ''medium''"
    by (simp add: wordSchema_def difficultySchema_def)
  from generateBatch_results [of ?ws None "''medium''" ?envs, THEN conjunct1, THEN mp, OF v]
  obtain rs where rs: "snd (generateBatch ?envs ?ws None) =
        Inr \<lparr>batch_success = True, results = rs\<rparr>"
      "length rs = length ?ws"
      "\<forall>i < length ?ws. snd (generateSentenceForWord (?envs i) (?ws ! i) (Some ''medium'')) =
         Inr (rs ! i)"
    by (elim exE conjE)
  have "(1::nat) < length ?ws" by simp
  with rs(3) have "snd (generateSentenceForWord (?envs 1) (?ws ! 1) (Some ''medium'')) = Inr (rs ! 1)"
    by (elim allE impE)
  moreover have "?envs 1 = exampleEnv (refusing 429)" "?ws ! 1 = ''book''"
    by simp_all
  ultimately have "snd (generateSentenceForWord (exampleEnv (refusing 429)) ''book'' (Some ''medium'')) =
      Inr (rs ! 1)"
    by (simp only:)
  with rs(1,2) v show ?thesis by auto
qed

text \<open>C7 as stated fails: for a list with an empty word, and for a difficulty outside the
  three names, the procedure is rejected and returns no result for any word.\<close>

theorem rejected_batch_counterexample:
  "generateBatch (\<lambda>i. exampleEnv (answering ''An apple a day'')) [''apple'', [], ''day'']
     (Some ''medium'') = ([], Inl BadRequest) \<and>
   generateBatch (\<lambda>i. exampleEnv (answering ''An apple a day'')) [''apple''] (Some ''expert'') =
     ([], Inl BadRequest)"
  by code_simp

text \<open>
  C8. In every branch the word of the result is the input word and its difficulty is
  the requested one, \<open>medium\<close> when none was passed.
\<close>

theorem result_echoes_input:
  "\<exists>r. snd (generateSentenceForWord e w d) = Inr r \<and> word r = w \<and>
     difficulty r = (case d of None \<Rightarrow> ''medium'' | Some x \<Rightarrow> x)"
  by (cases rule: generateSentenceForWord_cases [of w e d]) auto

theorem result_echoes_input_witness:
  "\<exists>r. snd (generateSentenceForWord (exampleEnv (refusing 429)) ''book'' None) = Inr r \<and>
     word r = ''book'' \<and> difficulty r = ''medium''"
  using result_echoes_input [of "exampleEnv (refusing 429)" "''book''" None]
  by simp

text \<open>
  C9, as amended. For every difficulty outside \<open>easy\<close>, \<open>medium\<close> and \<open>hard\<close>,
  \<open>generateSentenceForWord\<close> does not fail and its result echoes the difficulty; when
  the difficulty is not the name of a member of \<^verbatim>\<open>Object.prototype\<close>, \<open>createPrompt\<close>
  takes the instruction of medium difficulty. The procedure \<open>generateSentence\<close> rejects
  every such difficulty, so none reaches the function through it.
\<close>

theorem createPrompt_default_instruction:
  assumes "d \<notin> set [''easy'', ''medium'', ''hard'']"
  shows "(\<exists>r. snd (generateSentenceForWord e w (Some d)) = Inr r \<and> difficulty r = d) \<and>
     (d \<notin> set Object_prototype \<longrightarrow> prompt_instruction (createPrompt dr w d) = Medium) \<and>
     generateSentence e w (Some d) = ([], Inl BadRequest)"
proof (intro conjI impI)
  show "\<exists>r. snd (generateSentenceForWord e w (Some d)) = Inr r \<and> difficulty r = d"
    by (cases rule: generateSentenceForWord_cases [of w e "Some d"]) auto
  show "prompt_instruction (createPrompt dr w d) = Medium" if "d \<notin> set Object_prototype"
    using assms that by (simp add: createPrompt_def Let_def difficultyInstructions_def)
  show "generateSentence e w (Some d) = ([], Inl BadRequest)"
    using assms by (simp add: generateSentence_def difficultySchema_def)
qed

text \<open>The theorem at the difficulty \<open>expert\<close>.\<close>

theorem createPrompt_default_instruction_witness:
  "''expert'' \<notin> set [''easy'', ''medium'', ''hard''] \<and> ''expert'' \<notin> set Object_prototype \<and>
   (\<exists>r. snd (generateSentenceForWord (exampleEnv (answering ''The cat sat on the mat'')) ''cat''
            (Some ''expert'')) = Inr r \<and> difficulty r = ''expert'') \<and>
   prompt_instruction (createPrompt noDraws ''cat'' ''expert'') = Medium"
proof -
  have a: "''expert'' \<notin> set [''easy'', ''medium'', ''hard'']" by simp
  have b: "''expert'' \<notin> set Object_prototype" by (simp add: Object_prototype_def)
  note c = createPrompt_default_instruction [OF a,
      of "exampleEnv (answering ''The cat sat on the mat'')" "''cat''" noDraws]
  note c1 = c [THEN conjunct1]
  note c2 = c [THEN conjunct2, THEN conjunct1, THEN mp, OF b]
  show ?thesis using a b c1 c2 by (intro conjI)
qed

text \<open>C9 as stated fails for the difficulty \<open>constructor\<close>: the call succeeds and echoes
  the difficulty, but the instruction of the prompt is the member of \<^verbatim>\<open>Object.prototype\<close>
  of that name, not the instruction of medium difficulty.\<close>

theorem inherited_instruction_counterexample:
  "generateSentenceForWord (exampleEnv (answering ''The cat sat on the mat'')) ''cat''
     (Some ''constructor'') =
     ([\<lparr>authorization = ''sk-test'',
        user_prompt = \<lparr>prompt_word = ''cat'', prompt_instruction = Inherited ''constructor'',
                       prompt_extra = StyleContext 0 0\<rparr>,
        temperature = 50\<rparr>],
      Inr \<lparr>success = True, word = ''cat'', sentence = ''The ___ sat on the mat.'',
           difficulty = ''constructor'', fallback = False, error = None\<rparr>) \<and>
   prompt_instruction (createPrompt noDraws ''cat'' ''constructor'') = Inherited ''constructor'' \<and>
   Inherited ''constructor'' \<noteq> Medium"
  by code_simp

text \<open>
  C10. Two calls for the same word that succeed, with the same regular expression
  engine and the same text from the generation client, return the same sentence,
  whatever their random draws, credentials and difficulties are: the normalizer takes
  no draw.
\<close>

theorem extractSentence_deterministic:
  assumes "snd (generateSentenceForWord e1 w d1) = Inr r1"
    and "snd (generateSentenceForWord e2 w d2) = Inr r2"
    and "success r1" and "success r2"
    and "env_regexp e1 = env_regexp e2"
    and "snd (callDeepSeekAPI (DEEPSEEK_API_KEY e1) (env_random e1) (env_fetch e1)
            (createPrompt (env_random e1) w (case d1 of None \<Rightarrow> ''medium'' | Some x \<Rightarrow> x))) =
         snd (callDeepSeekAPI (DEEPSEEK_API_KEY e2) (env_random e2) (env_fetch e2)
            (createPrompt (env_random e2) w (case d2 of None \<Rightarrow> ''medium'' | Some x \<Rightarrow> x)))"
  shows "sentence r1 = sentence r2"
proof -
  have 1: "\<exists>raw. snd (callDeepSeekAPI (DEEPSEEK_API_KEY e) (env_random e) (env_fetch e)
            (createPrompt (env_random e) w (case d of None \<Rightarrow> ''medium'' | Some x \<Rightarrow> x))) = Inr raw \<and>
          extractSentence (env_regexp e) raw w = Inr (sentence r)"
    if "snd (generateSentenceForWord e w d) = Inr r" "success r" for e d r
    using that by (cases rule: generateSentenceForWord_cases [of w e d]) auto
  from 1 [OF assms(1,3)] 1 [OF assms(2,4)] assms(5,6) show ?thesis by auto
qed

text \<open>The theorem for two calls with different draws, credentials and difficulties.\<close>

theorem extractSentence_deterministic_witness:
  "snd (generateSentenceForWord (exampleEnv (answering ''I feel happy today'')) ''happy''
          (Some ''hard'')) =
     Inr \<lparr>success = True, word = ''happy'', sentence = ''I feel ___ today.'',
          difficulty = ''hard'', fallback = False, error = None\<rparr> \<and>
   snd (generateSentenceForWord
     \<lparr>DEEPSEEK_API_KEY = ''sk-other'', env_fetch = answering ''I feel happy today'',
      env_regexp = rejecting,
      env_random = \<lparr>style_draw = 3, context_draw = 5, variation_draw = 2,
                    temperature_draw = 17, template_draw = 6\<rparr>\<rparr> ''happy'' None) =
     Inr \<lparr>success = True, word = ''happy'', sentence = ''I feel ___ today.'',
          difficulty = ''medium'', fallback = False, error = None\<rparr> \<and>
   sentence \<lparr>success = True, word = ''happy'', sentence = ''I feel ___ today.'',
             difficulty = ''hard'', fallback = False, error = None\<rparr> =
   sentence \<lparr>success = True, word = ''happy'', sentence = ''I feel ___ today.'',
             difficulty = ''medium'', fallback = False, error = None\<rparr>"
proof -
  let ?e1 = "exampleEnv (answering ''I feel happy today'')"
  let ?e2 = "\<lparr>DEEPSEEK_API_KEY = ''sk-other'', env_fetch = answering ''I feel happy today'',
      env_regexp = rejecting,
      env_random = \<lparr>style_draw = 3, context_draw = 5, variation_draw = 2,
                    temperature_draw = 17, template_draw = 6\<rparr>\<rparr>"
  let ?r1 = "\<lparr>success = True, word = ''happy'', sentence = ''I feel ___ today.'',
            difficulty = ''hard'', fallback = False, error = None\<rparr>"
  let ?r2 = "\<lparr>success = True, word = ''happy'', sentence = ''I feel ___ today.'',
          difficulty = ''medium'', fallback = False, error = None\<rparr>"
  have a: "snd (generateSentenceForWord ?e1 ''happy'' (Some ''hard'')) = Inr ?r1"
    by code_simp
  have b: "snd (generateSentenceForWord ?e2 ''happy'' None) = Inr ?r2"
    by code_simp
  have c: "success ?r1" "success ?r2" by simp_all
  have d: "env_regexp ?e1 = env_regexp ?e2" by (simp add: exampleEnv_def)
  have e: "snd (callDeepSeekAPI (DEEPSEEK_API_KEY ?e1) (env_random ?e1) (env_fetch ?e1)
            (createPrompt (env_random ?e1) ''happy''
               (case Some ''hard'' of None \<Rightarrow> ''medium'' | Some x \<Rightarrow> x))) =
         snd (callDeepSeekAPI (DEEPSEEK_API_KEY ?e2) (env_random ?e2) (env_fetch ?e2)
            (createPrompt (env_random ?e2) ''happy''
               (case None of None \<Rightarrow> ''medium'' | Some x \<Rightarrow> x)))"
    by code_simp
  note extractSentence_deterministic [OF a b c d e]
  with a b show ?thesis by (intro conjI)
qed

end
